theory Spec2Isabelle
  imports Main
begin

section \<open>JavaScript values used by the handlers\<close>

text \<open>
  The repository holds three versions of the same Express server:
  \<^item> the in-memory engine (\<^verbatim>\<open>src/unnamed/part_001\<close>, lines 1-204): \<^verbatim>\<open>/api/topup\<close>,
    \<^verbatim>\<open>/api/midtrans/webhook\<close>, \<^verbatim>\<open>/api/balance/:userId\<close>, \<^verbatim>\<open>/api/withdraw\<close> over the
    objects \<^verbatim>\<open>balances\<close>, \<^verbatim>\<open>pendingOrders\<close>, \<^verbatim>\<open>processedOrders\<close>, \<^verbatim>\<open>withdrawHistory\<close>;
  \<^item> the Firestore server with a ledger (\<^verbatim>\<open>src/unnamed/part_000\<close>): \<^verbatim>\<open>/api/payment\<close>,
    \<^verbatim>\<open>/api/midtrans-callback\<close>, \<^verbatim>\<open>/api/withdraw\<close>;
  \<^item> the Firestore server without a ledger (\<^verbatim>\<open>src/server.js\<close>, lines 1-213):
    \<^verbatim>\<open>/api/topup\<close>, \<^verbatim>\<open>/api/midtrans/webhook\<close>, \<^verbatim>\<open>/api/withdraw\<close>.

  Conventions of the embedding. A request field is \<open>None\<close> when the JSON body lacks it.
  Amounts are JSON numbers that are integers (the currency's minor units) and all
  arithmetic is exact, which is what the code computes while every number stays below
  \<open>2 ^ 53\<close> in magnitude; the statements about arbitrary amounts carry that bound.
  Identifiers and notification fields are strings. The objects \<^verbatim>\<open>balances\<close>,
  \<^verbatim>\<open>pendingOrders\<close> and \<^verbatim>\<open>withdrawHistory\<close> are plain objects: a read finds the object's own
  property or else what \<^verbatim>\<open>Object.prototype\<close> provides, and both are modelled. A \<^verbatim>\<open>Set\<close> is
  a set and a Firestore collection is a map from document id to document. Calls that
  leave the process (the UUID generator, the clock, the payment gateway's
  \<^verbatim>\<open>snap.createTransaction\<close>, the digest of \<^verbatim>\<open>crypto\<close>, the token verifier) are parameters
  of the handlers; the clock's day is an ISO date, so it never names a member of
  \<^verbatim>\<open>Object.prototype\<close>.
\<close>

text \<open>
  The values that a property of \<^verbatim>\<open>balances\<close> can hold or inherit: a number (with integer
  amounts the only non-integer that arises is \<^verbatim>\<open>NaN\<close>), one of the functions that every
  object inherits from \<^verbatim>\<open>Object.prototype\<close> (named by its key), \<^verbatim>\<open>Object.prototype\<close>
  itself (the value of the key \<^verbatim>\<open>__proto__\<close>), and the string that \<^verbatim>\<open>+\<close> builds when its left
  operand is not a number (\<open>Concat x y\<close> is the text of \<open>x\<close> followed by the text of
  \<open>y\<close>; it starts with the text of a function or of an object and is not numeric).
\<close>

datatype jsval = Num int | NaN | Builtin string | ObjectPrototype | Concat jsval jsval

text \<open>The function-valued members of \<^verbatim>\<open>Object.prototype\<close>.\<close>

definition builtin_names :: "string list" where
  "builtin_names =
     [''constructor'', ''__defineGetter__'', ''__defineSetter__'', ''hasOwnProperty'',
      ''__lookupGetter__'', ''__lookupSetter__'', ''isPrototypeOf'', ''propertyIsEnumerable'',
      ''toString'', ''valueOf'', ''toLocaleString'']"

fun truthy :: "jsval \<Rightarrow> bool" where
  "truthy (Num b) = (b \<noteq> 0)"
| "truthy NaN = False"
| "truthy (Builtin k) = True"
| "truthy ObjectPrototype = True"
| "truthy (Concat x y) = True"

text \<open>\<^verbatim>\<open>x || 0\<close> for a property value \<open>x\<close> that may be undefined.\<close>

fun or_zero :: "jsval option \<Rightarrow> jsval" where
  "or_zero None = Num 0"
| "or_zero (Some v) = (if truthy v then v else Num 0)"

text \<open>\<^verbatim>\<open>x + y\<close>: addition of two numbers, concatenation of the texts otherwise.\<close>

fun js_plus :: "jsval \<Rightarrow> jsval \<Rightarrow> jsval" where
  "js_plus (Num a) (Num b) = Num (a + b)"
| "js_plus (Num a) NaN = NaN"
| "js_plus NaN (Num b) = NaN"
| "js_plus NaN NaN = NaN"
| "js_plus x y = Concat x y"

text \<open>\<^verbatim>\<open>x < a\<close> for a number \<open>a\<close>: a function, an object and a non-numeric string
  convert to \<^verbatim>\<open>NaN\<close>, and every comparison with \<^verbatim>\<open>NaN\<close> is false.\<close>

fun js_less :: "jsval \<Rightarrow> int \<Rightarrow> bool" where
  "js_less (Num b) a = (b < a)"
| "js_less v a = False"

text \<open>\<^verbatim>\<open>x - a\<close> for a property value \<open>x\<close> that may be undefined.\<close>

fun js_minus :: "jsval option \<Rightarrow> int \<Rightarrow> jsval" where
  "js_minus (Some (Num b)) a = Num (b - a)"
| "js_minus v a = NaN"

text \<open>\<^verbatim>\<open>!x\<close> for a string field and for a numeric field of the request body.\<close>

fun not_str :: "string option \<Rightarrow> bool" where
  "not_str None = True"
| "not_str (Some s) = (s = [])"

fun not_num :: "int option \<Rightarrow> bool" where
  "not_num None = True"
| "not_num (Some a) = (a = 0)"

text \<open>\<^verbatim>\<open>parseInt(process.env.X) || d\<close>: the parsed variable is \<open>None\<close> when it is unset or
  not a number.\<close>

fun env_or :: "int option \<Rightarrow> int \<Rightarrow> int" where
  "env_or None d = d"
| "env_or (Some v) d = (if v = 0 then d else v)"

section \<open>Configuration, requests and responses\<close>

record config =
  MIN_TOPUP :: int
  MAX_WITHDRAW :: int
  DAILY_WITHDRAW_LIMIT :: int
  MIDTRANS_SERVER_KEY :: string
  sha512_hex :: "string \<Rightarrow> string"

definition load_config ::
  "int option \<Rightarrow> int option \<Rightarrow> int option \<Rightarrow> string \<Rightarrow> (string \<Rightarrow> string) \<Rightarrow> config" where
  "load_config min_env max_env daily_env key h =
     \<lparr> MIN_TOPUP = env_or min_env 10000,
       MAX_WITHDRAW = env_or max_env 10000000,
       DAILY_WITHDRAW_LIMIT = env_or daily_env 20000000,
       MIDTRANS_SERVER_KEY = key,
       sha512_hex = h \<rparr>"

record notification =
  order_id :: string
  status_code :: string
  gross_amount :: string
  signature_key :: string
  transaction_status :: string

text \<open>The digest both webhook handlers compare with \<^verbatim>\<open>signature_key\<close>:
  \<^verbatim>\<open>sha512(order_id + status_code + gross_amount + serverKey)\<close> in hexadecimal.\<close>

definition expectedSignature :: "config \<Rightarrow> notification \<Rightarrow> string" where
  "expectedSignature cfg n =
     sha512_hex cfg (order_id n @ status_code n @ gross_amount n @ MIDTRANS_SERVER_KEY cfg)"

text \<open>The result of \<^verbatim>\<open>snap.createTransaction\<close>: \<open>None\<close> when the call throws.\<close>

record snap_transaction =
  token :: string
  redirect_url :: string

datatype body =
    Message string
  | Text string
  | TopupCreated string string string
  | SnapCreated string string
  | BalanceOf string int
  | BalanceRaw string jsval
  | WithdrawDone string jsval
  | ErrorMessage

type_synonym response = "nat \<times> body"

section \<open>The in-memory engine\<close>

record order =
  userId :: string
  amount :: int

text \<open>The four containers of the process, the calls made to the gateway so far (order
  id and gross amount of each \<^verbatim>\<open>snap.createTransaction\<close>), and what the handlers can
  write outside their containers: properties added to \<^verbatim>\<open>Object.prototype\<close> and to the
  functions it provides (\<open>builtinProps s k\<close> holds those added to the function found
  under the key \<open>k\<close>). The maps hold own properties only.\<close>

record store =
  balances :: "string \<rightharpoonup> jsval"
  pendingOrders :: "string \<rightharpoonup> order"
  processedOrders :: "string set"
  withdrawHistory :: "string \<rightharpoonup> (string \<rightharpoonup> int)"
  snapCalls :: "(string \<times> int) list"
  objectPrototype :: "string \<rightharpoonup> int"
  builtinProps :: "string \<Rightarrow> (string \<rightharpoonup> int)"

definition init_store :: store where
  "init_store = \<lparr> balances = Map.empty, pendingOrders = Map.empty, processedOrders = {},
                  withdrawHistory = Map.empty, snapCalls = [],
                  objectPrototype = Map.empty, builtinProps = (\<lambda>k. Map.empty) \<rparr>"

text \<open>What a plain object without an own property \<open>k\<close> yields for \<^verbatim>\<open>obj[k]\<close>: the
  accessor \<^verbatim>\<open>__proto__\<close> returns \<^verbatim>\<open>Object.prototype\<close>, the other members are functions, and
  a property that a handler has added to \<^verbatim>\<open>Object.prototype\<close> is a number.\<close>

definition inherited :: "store \<Rightarrow> string \<Rightarrow> jsval option" where
  "inherited s k =
     (if k = ''__proto__'' then Some ObjectPrototype
      else if k \<in> set builtin_names then Some (Builtin k)
      else map_option Num (objectPrototype s k))"

text \<open>\<^verbatim>\<open>balances[k]\<close> as a read, and \<^verbatim>\<open>balances[k] = v\<close> for a number or string \<open>v\<close>: the
  inherited setter of \<^verbatim>\<open>__proto__\<close> ignores such a value and creates no property.\<close>

definition read_balance :: "store \<Rightarrow> string \<Rightarrow> jsval option" where
  "read_balance s k = (case balances s k of Some v \<Rightarrow> Some v | None \<Rightarrow> inherited s k)"

definition write_balance :: "store \<Rightarrow> string \<Rightarrow> jsval \<Rightarrow> store" where
  "write_balance s k v =
     (if k = ''__proto__'' \<and> balances s k = None then s
      else s\<lparr> balances := (balances s)(k \<mapsto> v) \<rparr>)"

text \<open>\<^verbatim>\<open>POST /api/topup\<close>. \<open>uuid\<close> is the value of \<^verbatim>\<open>uuidv4()\<close>, \<open>snap\<close> the outcome of the
  gateway call.\<close>

definition topup ::
  "config \<Rightarrow> store \<Rightarrow> string option \<Rightarrow> int option \<Rightarrow> string \<Rightarrow> snap_transaction option
     \<Rightarrow> store \<times> response" where
  "topup cfg s uid amt uuid snap =
     (if not_str uid \<or> not_num amt \<or> the amt < MIN_TOPUP cfg
      then (s, 400, Message ''Invalid request'')
      else
        let orderId = ''TOPUP-'' @ uuid;
            s1 = s\<lparr> snapCalls := snapCalls s @ [(orderId, the amt)] \<rparr>
        in case snap of
             None \<Rightarrow> (s1, 500, Message ''Transaction error'')
           | Some tr \<Rightarrow>
               (s1\<lparr> pendingOrders :=
                      (pendingOrders s1)(orderId \<mapsto> \<lparr> userId = the uid, amount = the amt \<rparr>) \<rparr>,
                200, TopupCreated orderId (token tr) (redirect_url tr)))"

text \<open>\<^verbatim>\<open>POST /api/midtrans/webhook\<close>. \<^verbatim>\<open>pendingOrders[order_id]\<close> is truthy for a stored
  order and for a truthy inherited value; an inherited value has no \<^verbatim>\<open>userId\<close> and no
  \<^verbatim>\<open>amount\<close>, so the credit goes to the key \<^verbatim>\<open>undefined\<close> and \<^verbatim>\<open>parseInt(undefined)\<close> is
  \<^verbatim>\<open>NaN\<close>. \<^verbatim>\<open>parseInt(amount)\<close> of a stored integer is that integer.\<close>

definition pending_truthy :: "store \<Rightarrow> string \<Rightarrow> bool" where
  "pending_truthy s k =
     (case pendingOrders s k of
        Some ord \<Rightarrow> True
      | None \<Rightarrow> (case inherited s k of Some v \<Rightarrow> truthy v | None \<Rightarrow> False))"

definition webhook :: "config \<Rightarrow> store \<Rightarrow> notification \<Rightarrow> store \<times> response" where
  "webhook cfg s n =
     (if signature_key n \<noteq> expectedSignature cfg n
      then (s, 403, Message ''Invalid signature'')
      else if order_id n \<in> processedOrders s
      then (s, 200, Message ''Already processed'')
      else if (transaction_status n = ''settlement'' \<or> transaction_status n = ''capture'')
              \<and> pending_truthy s (order_id n)
      then
        let (u, a) = (case pendingOrders s (order_id n) of
                        Some ord \<Rightarrow> (userId ord, Num (amount ord))
                      | None \<Rightarrow> (''undefined'', NaN));
            s1 = write_balance s u (js_plus (or_zero (read_balance s u)) a)
        in (s1\<lparr> processedOrders := insert (order_id n) (processedOrders s1),
                pendingOrders := (pendingOrders s1)(order_id n := None) \<rparr>,
            200, Message ''Webhook processed'')
      else (s, 200, Message ''Webhook processed''))"

text \<open>\<^verbatim>\<open>GET /api/balance/:userId\<close>. The body holds \<^verbatim>\<open>balances[userId] || 0\<close>; when that
  is not a number the body is \<open>BalanceRaw\<close> with the value (a function, which the JSON
  encoding then leaves out, \<^verbatim>\<open>Object.prototype\<close>, or a string).\<close>

definition balance_query :: "store \<Rightarrow> string \<Rightarrow> store \<times> response" where
  "balance_query s uid =
     (s, 200, (case or_zero (read_balance s uid) of
                 Num b \<Rightarrow> BalanceOf uid b
               | v \<Rightarrow> BalanceRaw uid v))"

text \<open>The parts of \<^verbatim>\<open>POST /api/withdraw\<close> that touch \<^verbatim>\<open>withdrawHistory\<close>.
  \<^verbatim>\<open>withdrawHistory[userId]\<close> is the user's own history object, or an inherited value:
  \<^verbatim>\<open>Object.prototype\<close>, one of its functions, or a number. \<open>todayTotal\<close> is
  \<^verbatim>\<open>withdrawHistory[userId][today] || 0\<close> read through that value, \<open>write_total\<close> is
  \<^verbatim>\<open>withdrawHistory[userId][today] = t\<close>, which lands on the object found (and is dropped
  when that is a number).\<close>

definition history_truthy :: "store \<Rightarrow> string \<Rightarrow> bool" where
  "history_truthy s u =
     (case withdrawHistory s u of
        Some h \<Rightarrow> True
      | None \<Rightarrow> (case inherited s u of Some v \<Rightarrow> truthy v | None \<Rightarrow> False))"

definition inherited_total :: "store \<Rightarrow> string \<Rightarrow> int" where
  "inherited_total s d = (case objectPrototype s d of None \<Rightarrow> 0 | Some t \<Rightarrow> t)"

definition todayTotal :: "store \<Rightarrow> string \<Rightarrow> string \<Rightarrow> int" where
  "todayTotal s u d =
     (case withdrawHistory s u of
        Some h \<Rightarrow> (case h d of Some t \<Rightarrow> t | None \<Rightarrow> inherited_total s d)
      | None \<Rightarrow>
          (case inherited s u of
             Some (Builtin k) \<Rightarrow>
               (case builtinProps s k d of Some t \<Rightarrow> t | None \<Rightarrow> inherited_total s d)
           | _ \<Rightarrow> inherited_total s d))"

definition write_total :: "store \<Rightarrow> string \<Rightarrow> string \<Rightarrow> int \<Rightarrow> store" where
  "write_total s u d t =
     (case withdrawHistory s u of
        Some h \<Rightarrow> s\<lparr> withdrawHistory := (withdrawHistory s)(u \<mapsto> h(d \<mapsto> t)) \<rparr>
      | None \<Rightarrow>
          (case inherited s u of
             Some ObjectPrototype \<Rightarrow> s\<lparr> objectPrototype := (objectPrototype s)(d \<mapsto> t) \<rparr>
           | Some (Builtin k) \<Rightarrow>
               s\<lparr> builtinProps := (builtinProps s)(k := (builtinProps s k)(d \<mapsto> t)) \<rparr>
           | _ \<Rightarrow> s))"

text \<open>\<^verbatim>\<open>POST /api/withdraw\<close>. \<open>today\<close> is \<^verbatim>\<open>new Date().toISOString().split("T")[0]\<close>.
  The history object of the user is created before the daily total is compared; the
  answer carries \<^verbatim>\<open>balances[userId]\<close> as read after the two writes.\<close>

definition withdraw ::
  "config \<Rightarrow> store \<Rightarrow> string option \<Rightarrow> int option \<Rightarrow> string \<Rightarrow> store \<times> response" where
  "withdraw cfg s uid amt today =
     (if not_str uid \<or> not_num amt
      then (s, 400, Message ''Invalid request'')
      else if the amt > MAX_WITHDRAW cfg
      then (s, 400, Message ''Exceeds max withdraw'')
      else if js_less (or_zero (read_balance s (the uid))) (the amt)
      then (s, 400, Message ''Insufficient balance'')
      else
        let u = the uid; a = the amt;
            s1 = (if history_truthy s u then s
                  else s\<lparr> withdrawHistory := (withdrawHistory s)(u \<mapsto> Map.empty) \<rparr>);
            t = todayTotal s1 u today
        in if t + a > DAILY_WITHDRAW_LIMIT cfg
           then (s1, 400, Message ''Daily limit exceeded'')
           else
             let s2 = write_balance s1 u (js_minus (read_balance s1 u) a);
                 s3 = write_total s2 u today (t + a)
             in (s3, 200,
                 WithdrawDone ''Withdraw success (simulation)''
                   (case read_balance s3 u of Some v \<Rightarrow> v | None \<Rightarrow> NaN)))"

text \<open>Requests arriving one after the other. The handlers of this version run to
  completion without awaiting anything between their reads and writes, except
  \<^verbatim>\<open>/api/topup\<close>, which only writes after the gateway has answered.\<close>

datatype event =
    Topup "string option" "int option" string "snap_transaction option"
  | Webhook notification
  | Balance string
  | Withdraw "string option" "int option" string



text \<open>The same notification delivered \<open>k\<close> times in a row, with the responses.\<close>

fun deliver :: "config \<Rightarrow> store \<Rightarrow> notification \<Rightarrow> nat \<Rightarrow> store \<times> response list" where
  "deliver cfg s n 0 = (s, [])"
| "deliver cfg s n (Suc k) =
     (let (s1, r) = webhook cfg s n; (s2, rs) = deliver cfg s1 n k in (s2, r # rs))"

section \<open>The Firestore servers\<close>

text \<open>
  Both servers use the collection \<^verbatim>\<open>transactions\<close>; \<^verbatim>\<open>part_000\<close> also reads and writes
  \<^verbatim>\<open>users\<close> and appends to \<^verbatim>\<open>withdraw_requests\<close>. Of a transaction document the fields
  \<^verbatim>\<open>uid\<close>, \<^verbatim>\<open>amount\<close> and \<^verbatim>\<open>status\<close> are kept (the timestamps and the constant \<^verbatim>\<open>type\<close> are
  not), of a user document the field \<^verbatim>\<open>balance\<close>, which may be missing. \<^verbatim>\<open>set\<close> creates or
  replaces a document, \<^verbatim>\<open>update\<close> throws when the document does not exist, and the
  writes of \<^verbatim>\<open>runTransaction\<close> are applied together. Document ids are taken to be
  well-formed (non-empty, without a slash), as the ids the servers generate are, and
  storage outages are not modelled.
\<close>

record transaction_doc =
  tx_uid :: string
  tx_amount :: int
  tx_status :: string

record user_doc =
  balance :: "int option"

record withdraw_request =
  wr_uid :: string
  wr_amount :: int
  wr_account_number :: "string option"
  wr_status :: string
  wr_created_at :: string

record firestore =
  transactions :: "string \<rightharpoonup> transaction_doc"
  users :: "string \<rightharpoonup> user_doc"
  withdraw_requests :: "withdraw_request list"
  gatewayCalls :: "(string \<times> int) list"

text \<open>\<^verbatim>\<open>userDoc.data().balance || 0\<close> for an existing user document.\<close>

fun balance_or_zero :: "user_doc \<Rightarrow> int" where
  "balance_or_zero ud = (case balance ud of None \<Rightarrow> 0 | Some b \<Rightarrow> b)"



text \<open>\<^verbatim>\<open>POST /api/midtrans-callback\<close> of \<^verbatim>\<open>part_000\<close>. Reading \<^verbatim>\<open>.balance\<close> of a missing user
  document throws inside the transaction, before any write.\<close>

definition midtrans_callback :: "config \<Rightarrow> firestore \<Rightarrow> notification \<Rightarrow> firestore \<times> response" where
  "midtrans_callback cfg fs n =
     (if expectedSignature cfg n \<noteq> signature_key n
      then (fs, 403, Text ''Invalid Signature'')
      else case transactions fs (order_id n) of
             None \<Rightarrow> (fs, 200, Text ''OK'')
           | Some trx \<Rightarrow>
               if tx_status trx = ''success'' then (fs, 200, Text ''OK'')
               else if transaction_status n = ''settlement''
               then (case users fs (tx_uid trx) of
                       None \<Rightarrow> (fs, 500, Text ''Error'')
                     | Some userDoc \<Rightarrow>
                         (fs\<lparr> users := (users fs)(tx_uid trx \<mapsto>
                                 userDoc\<lparr> balance := Some (balance_or_zero userDoc + tx_amount trx) \<rparr>),
                              transactions := (transactions fs)(order_id n \<mapsto>
                                 trx\<lparr> tx_status := ''success'' \<rparr>) \<rparr>,
                          200, Text ''OK''))
               else (fs, 200, Text ''OK''))"


text \<open>\<^verbatim>\<open>POST /api/topup\<close> of server.js.\<close>

definition topup_fs ::
  "firestore \<Rightarrow> string option \<Rightarrow> int option \<Rightarrow> string \<Rightarrow> snap_transaction option
     \<Rightarrow> firestore \<times> response" where
  "topup_fs fs uid amt uuid snap =
     (if not_str uid \<or> not_num amt \<or> the amt < 10000
      then (fs, 400, Message ''Invalid request'')
      else
        let orderId = ''TOPUP-'' @ uuid;
            fs1 = fs\<lparr> gatewayCalls := gatewayCalls fs @ [(orderId, the amt)] \<rparr>
        in case snap of
             None \<Rightarrow> (fs1, 500, Message ''Internal server error'')
           | Some tr \<Rightarrow>
               (fs1\<lparr> transactions :=
                      (transactions fs1)(orderId \<mapsto>
                         \<lparr> tx_uid = the uid, tx_amount = the amt, tx_status = ''pending'' \<rparr>) \<rparr>,
                200, SnapCreated (token tr) (redirect_url tr)))"

text \<open>\<^verbatim>\<open>POST /api/midtrans/webhook\<close> of server.js: two status updates, each of which
  throws on a missing document.\<close>

definition update_status :: "firestore \<Rightarrow> string \<Rightarrow> string \<Rightarrow> firestore option" where
  "update_status fs oid st =
     (case transactions fs oid of
        None \<Rightarrow> None
      | Some trx \<Rightarrow> Some (fs\<lparr> transactions := (transactions fs)(oid \<mapsto> trx\<lparr> tx_status := st \<rparr>) \<rparr>))"

definition webhook_fs :: "config \<Rightarrow> firestore \<Rightarrow> notification \<Rightarrow> firestore \<times> response" where
  "webhook_fs cfg fs n =
     (if sha512_hex cfg (order_id n @ status_code n @ gross_amount n @ MIDTRANS_SERVER_KEY cfg)
           \<noteq> signature_key n
      then (fs, 403, Message ''Invalid signature'')
      else
        case (if transaction_status n = ''settlement'' \<or> transaction_status n = ''capture''
              then update_status fs (order_id n) ''success'' else Some fs) of
          None \<Rightarrow> (fs, 500, Message ''Webhook error'')
        | Some fs1 \<Rightarrow>
            (case (if transaction_status n = ''expire''
                   then update_status fs1 (order_id n) ''expired'' else Some fs1) of
               None \<Rightarrow> (fs1, 500, Message ''Webhook error'')
             | Some fs2 \<Rightarrow> (fs2, 200, Message ''Webhook processed'')))"




fun deliver_callback ::
  "config \<Rightarrow> firestore \<Rightarrow> notification \<Rightarrow> nat \<Rightarrow> firestore \<times> response list" where
  "deliver_callback cfg fs n 0 = (fs, [])"
| "deliver_callback cfg fs n (Suc k) =
     (let (fs1, r) = midtrans_callback cfg fs n; (fs2, rs) = deliver_callback cfg fs1 n k
      in (fs2, r # rs))"

section \<open>Domain of the general statements\<close>

text \<open>The keys that name a member of \<^verbatim>\<open>Object.prototype\<close>, and the integers that a
  JavaScript number holds exactly.\<close>

definition proto_member :: "string \<Rightarrow> bool" where
  "proto_member k \<longleftrightarrow> k = ''__proto__'' \<or> k \<in> set builtin_names"

definition safe :: "int \<Rightarrow> bool" where
  "safe a \<longleftrightarrow> - 9007199254740991 \<le> a \<and> a \<le> 9007199254740991"


text \<open>Nothing has been written outside the four containers.\<close>

definition pristine :: "store \<Rightarrow> bool" where
  "pristine s \<longleftrightarrow> objectPrototype s = Map.empty \<and> builtinProps s = (\<lambda>k. Map.empty)"

text \<open>The balance that a credit of \<open>a\<close> must leave, in the words of the specification:
  the stored integer plus \<open>a\<close>, and \<open>a\<close> for an account that holds no number yet.\<close>

fun credited :: "jsval option \<Rightarrow> int \<Rightarrow> jsval" where
  "credited (Some (Num b)) a = Num (b + a)"
| "credited v a = Num a"

text \<open>The numbers of a credit are exact: the account holds no value, \<^verbatim>\<open>NaN\<close> or a safe
  integer, and the amount and the sum are safe. The second form is for the optional
  \<^verbatim>\<open>balance\<close> field of a user document.\<close>

fun exact_credit :: "jsval option \<Rightarrow> int \<Rightarrow> bool" where
  "exact_credit None a = safe a"
| "exact_credit (Some NaN) a = safe a"
| "exact_credit (Some (Num b)) a = (safe b \<and> safe a \<and> safe (b + a))"
| "exact_credit (Some v) a = False"





section \<open>Example data\<close>

text \<open>Concrete inputs for the instances below: the default configuration with list
  reversal standing in for the digest, notifications signed under it, and small stores
  and databases. The identity service of the examples maps a token to itself.\<close>

abbreviation (input) test_config :: config where
  "test_config \<equiv> load_config None None None ''secret'' rev"

abbreviation (input) signed :: "string \<Rightarrow> string \<Rightarrow> notification" where
  "signed oid st \<equiv>
     \<lparr> order_id = oid, status_code = ''200'', gross_amount = ''50000.00'',
       signature_key = rev (oid @ ''200'' @ ''50000.00'' @ ''secret''),
       transaction_status = st \<rparr>"

abbreviation (input) snap_ok :: "snap_transaction option" where
  "snap_ok \<equiv> Some \<lparr> token = ''t'', redirect_url = ''r'' \<rparr>"



abbreviation (input) one_transaction :: firestore where
  "one_transaction \<equiv>
     \<lparr> transactions =
         [''TOP-1'' \<mapsto> \<lparr> tx_uid = ''u'', tx_amount = 50000, tx_status = ''pending'' \<rparr>],
       users = [''u'' \<mapsto> \<lparr> balance = Some 0 \<rparr>],
       withdraw_requests = [], gatewayCalls = [] \<rparr>"

abbreviation (input) user_without_orders :: firestore where
  "user_without_orders \<equiv>
     \<lparr> transactions = Map.empty, users = [''u'' \<mapsto> \<lparr> balance = Some 0 \<rparr>],
       withdraw_requests = [], gatewayCalls = [] \<rparr>"


abbreviation (input) funded_account :: store where
  "funded_account \<equiv> init_store\<lparr> balances := [''u'' \<mapsto> Num 7] \<rparr>"


abbreviation (input) funded_transaction :: firestore where
  "funded_transaction \<equiv>
     \<lparr> transactions =
         [''TOP-1'' \<mapsto> \<lparr> tx_uid = ''u'', tx_amount = 50000, tx_status = ''pending'' \<rparr>],
       users = [''u'' \<mapsto> \<lparr> balance = Some 7 \<rparr>],
       withdraw_requests = [], gatewayCalls = [] \<rparr>"

abbreviation (input) orphan_transaction :: firestore where
  "orphan_transaction \<equiv>
     \<lparr> transactions =
         [''TOP-1'' \<mapsto> \<lparr> tx_uid = ''u'', tx_amount = 50000, tx_status = ''pending'' \<rparr>],
       users = Map.empty, withdraw_requests = [], gatewayCalls = [] \<rparr>"

section \<open>Properties\<close>

subsection \<open>Helper facts\<close>

lemmas engine_defs =
  topup_def webhook_def balance_query_def withdraw_def pending_truthy_def history_truthy_def
  read_balance_def write_balance_def inherited_def builtin_names_def todayTotal_def
  write_total_def inherited_total_def expectedSignature_def load_config_def init_store_def
  Let_def

lemma inherited_plain: "pristine s \<Longrightarrow> \<not> proto_member k \<Longrightarrow> inherited s k = None"
  by (simp add: pristine_def proto_member_def inherited_def)

lemma read_balance_plain:
  "pristine s \<Longrightarrow> \<not> proto_member k \<Longrightarrow> read_balance s k = balances s k"
  by (simp add: read_balance_def inherited_plain split: option.splits)

lemma write_balance_plain:
  "\<not> proto_member k \<Longrightarrow> write_balance s k v = s\<lparr> balances := (balances s)(k \<mapsto> v) \<rparr>"
  by (simp add: write_balance_def proto_member_def)

lemma credit_value: "exact_credit x a \<Longrightarrow> js_plus (or_zero x) (Num a) = credited x a"
  by (cases "(x, a)" rule: exact_credit.cases) auto

lemma webhook_credit:
  assumes "signature_key n = expectedSignature cfg n"
    and "transaction_status n = ''settlement'' \<or> transaction_status n = ''capture''"
    and "pendingOrders s (order_id n) = Some ord" and "order_id n \<notin> processedOrders s"
    and "pristine s" and "\<not> proto_member (userId ord)"
    and "exact_credit (balances s (userId ord)) (amount ord)"
  shows "webhook cfg s n =
           (s\<lparr> balances :=
                (balances s)(userId ord \<mapsto> credited (balances s (userId ord)) (amount ord)),
               processedOrders := insert (order_id n) (processedOrders s),
               pendingOrders := (pendingOrders s)(order_id n := None) \<rparr>,
            200, Message ''Webhook processed'')"
  using assms
  by (simp add: webhook_def pending_truthy_def read_balance_plain write_balance_plain
        credit_value)















subsection \<open>Settlement notifications\<close>

text \<open>C1. Two inputs at which repeated settlement notifications for a pending order credit
  nothing. In the in-memory engine a top-up by the user id \<^verbatim>\<open>__proto__\<close> is stored; its
  settlement is recorded as processed and the order deleted, while the inherited setter
  discards the balance write, so three deliveries leave no balance at all. In the
  Firestore callback a pending transaction whose user has no document makes every
  delivery fail with 500 and nothing is written.\<close>

theorem paid_order_without_credit:
  "deliver test_config
     (fst (topup test_config init_store (Some ''__proto__'') (Some 50000) ''1'' snap_ok))
     (signed ''TOPUP-1'' ''settlement'') 3
   = (init_store\<lparr> processedOrders := {''TOPUP-1''}, snapCalls := [(''TOPUP-1'', 50000)] \<rparr>,
      [(200, Message ''Webhook processed''), (200, Message ''Already processed''),
       (200, Message ''Already processed'')]) \<and>
   deliver_callback test_config orphan_transaction (signed ''TOP-1'' ''settlement'') 3
   = (orphan_transaction, [(500, Text ''Error''), (500, Text ''Error''), (500, Text ''Error'')])"
  by (simp add: engine_defs midtrans_callback_def numeral_3_eq_3)




text \<open>C5. A notification whose \<^verbatim>\<open>signature_key\<close> differs from the digest of
  \<^verbatim>\<open>order_id + status_code + gross_amount + serverKey\<close> is answered 403 and leaves every
  container and collection as it was, in the in-memory webhook and in the Firestore
  callback.\<close>

theorem bad_signature_rejected:
  assumes "signature_key n \<noteq> expectedSignature cfg n"
  shows "webhook cfg s n = (s, 403, Message ''Invalid signature'') \<and>
         midtrans_callback cfg fs n = (fs, 403, Text ''Invalid Signature'')"
  using assms by (auto simp: webhook_def midtrans_callback_def)

theorem bad_signature_rejected_witness:
  "signature_key \<lparr> order_id = ''TOPUP-1'', status_code = ''200'', gross_amount = ''50000.00'',
        signature_key = ''00'', transaction_status = ''settlement'' \<rparr>
     \<noteq> expectedSignature test_config
         \<lparr> order_id = ''TOPUP-1'', status_code = ''200'', gross_amount = ''50000.00'',
           signature_key = ''00'', transaction_status = ''settlement'' \<rparr> \<and>
   webhook test_config
     (init_store\<lparr> pendingOrders := [''TOPUP-1'' \<mapsto> \<lparr> userId = ''u'', amount = 50000 \<rparr>] \<rparr>)
     \<lparr> order_id = ''TOPUP-1'', status_code = ''200'', gross_amount = ''50000.00'',
       signature_key = ''00'', transaction_status = ''settlement'' \<rparr>
   = (init_store\<lparr> pendingOrders := [''TOPUP-1'' \<mapsto> \<lparr> userId = ''u'', amount = 50000 \<rparr>] \<rparr>,
      403, Message ''Invalid signature'')"
proof -
  let ?n = "\<lparr> order_id = ''TOPUP-1'', status_code = ''200'', gross_amount = ''50000.00'',
        signature_key = ''00'', transaction_status = ''settlement'' \<rparr>"
  have h: "signature_key ?n \<noteq> expectedSignature test_config ?n"
    by (simp add: expectedSignature_def load_config_def)
  from bad_signature_rejected [OF h] h show ?thesis by blast
qed

text \<open>C7. A correctly signed settlement whose order id is \<^verbatim>\<open>constructor\<close> names no stored
  order, yet the in-memory webhook finds the inherited function under that key: it
  records the id as processed and writes \<^verbatim>\<open>NaN\<close> under the key \<^verbatim>\<open>undefined\<close> of the
  balances.\<close>

theorem inherited_order_settled:
  "pendingOrders init_store ''constructor'' = None \<and>
   webhook test_config init_store (signed ''constructor'' ''settlement'')
   = (init_store\<lparr> balances := [''undefined'' \<mapsto> NaN], processedOrders := {''constructor''} \<rparr>,
      200, Message ''Webhook processed'')"
  by (simp add: engine_defs)

text \<open>C8, amended. In the in-memory engine, for a user id that names no member of
  \<^verbatim>\<open>Object.prototype\<close>, in a state where nothing has been written outside the containers,
  and while the stored balance and its sum with 50000 are safe integers: a top-up
  request of 50000 that the gateway accepts stores a pending order; a correctly signed
  settlement for it then leaves the stored integer plus 50000 (50000 for an account
  without a number), marks the order processed and removes it from the pending orders;
  a later correctly signed expire notification for the same order is answered 200 and
  changes nothing. In server.js a settlement for a stored transaction sets its status
  to \<^verbatim>\<open>success\<close> and writes nothing else.\<close>

theorem round_trip:
  "(uid \<noteq> [] \<and> \<not> proto_member uid \<and> pristine s \<and>
    safe (MIN_TOPUP cfg) \<and> MIN_TOPUP cfg \<le> 50000 \<and>
    exact_credit (balances s uid) 50000 \<and> ''TOPUP-'' @ uuid \<notin> processedOrders s \<and>
    signature_key n1 = expectedSignature cfg n1 \<and> order_id n1 = ''TOPUP-'' @ uuid \<and>
    transaction_status n1 = ''settlement'' \<and>
    signature_key n2 = expectedSignature cfg n2 \<and> order_id n2 = ''TOPUP-'' @ uuid \<and>
    transaction_status n2 = ''expire'' \<longrightarrow>
      snd (topup cfg s (Some uid) (Some 50000) uuid (Some tr))
        = (200, TopupCreated (''TOPUP-'' @ uuid) (token tr) (redirect_url tr)) \<and>
      pendingOrders (fst (topup cfg s (Some uid) (Some 50000) uuid (Some tr))) (''TOPUP-'' @ uuid)
        = Some \<lparr> userId = uid, amount = 50000 \<rparr> \<and>
      balances (fst (topup cfg s (Some uid) (Some 50000) uuid (Some tr))) = balances s \<and>
      snd (webhook cfg (fst (topup cfg s (Some uid) (Some 50000) uuid (Some tr))) n1)
        = (200, Message ''Webhook processed'') \<and>
      balances (fst (webhook cfg (fst (topup cfg s (Some uid) (Some 50000) uuid (Some tr))) n1))
        = (balances s)(uid \<mapsto> credited (balances s uid) 50000) \<and>
      ''TOPUP-'' @ uuid
        \<in> processedOrders (fst (webhook cfg (fst (topup cfg s (Some uid) (Some 50000) uuid (Some tr))) n1)) \<and>
      pendingOrders (fst (webhook cfg (fst (topup cfg s (Some uid) (Some 50000) uuid (Some tr))) n1))
        (''TOPUP-'' @ uuid) = None \<and>
      webhook cfg (fst (webhook cfg (fst (topup cfg s (Some uid) (Some 50000) uuid (Some tr))) n1)) n2
        = (fst (webhook cfg (fst (topup cfg s (Some uid) (Some 50000) uuid (Some tr))) n1),
           200, Message ''Already processed'')) \<and>
   (expectedSignature cfg n = signature_key n \<and> transaction_status n = ''settlement'' \<and>
    transactions fs (order_id n) = Some trx \<longrightarrow>
      webhook_fs cfg fs n =
        (fs\<lparr> transactions := (transactions fs)(order_id n \<mapsto> trx\<lparr> tx_status := ''success'' \<rparr>) \<rparr>,
         200, Message ''Webhook processed''))"
proof (intro conjI impI)
  assume h: "uid \<noteq> [] \<and> \<not> proto_member uid \<and> pristine s \<and>
    safe (MIN_TOPUP cfg) \<and> MIN_TOPUP cfg \<le> 50000 \<and>
    exact_credit (balances s uid) 50000 \<and> ''TOPUP-'' @ uuid \<notin> processedOrders s \<and>
    signature_key n1 = expectedSignature cfg n1 \<and> order_id n1 = ''TOPUP-'' @ uuid \<and>
    transaction_status n1 = ''settlement'' \<and>
    signature_key n2 = expectedSignature cfg n2 \<and> order_id n2 = ''TOPUP-'' @ uuid \<and>
    transaction_status n2 = ''expire''"
  let ?oid = "''TOPUP-'' @ uuid"
  let ?ord = "\<lparr> userId = uid, amount = 50000 \<rparr>"
  let ?s1 = "s\<lparr> snapCalls := snapCalls s @ [(?oid, 50000)],
               pendingOrders := (pendingOrders s)(?oid \<mapsto> ?ord) \<rparr>"
  let ?s2 = "?s1\<lparr> balances := (balances s)(uid \<mapsto> credited (balances s uid) 50000),
                 processedOrders := insert ?oid (processedOrders s),
                 pendingOrders := (pendingOrders ?s1)(?oid := None) \<rparr>"
  from h have t: "topup cfg s (Some uid) (Some 50000) uuid (Some tr)
                    = (?s1, 200, TopupCreated ?oid (token tr) (redirect_url tr))"
    by (simp add: topup_def Let_def)
  have "webhook cfg ?s1 n1 =
          (?s1\<lparr> balances :=
                (balances ?s1)(userId ?ord \<mapsto> credited (balances ?s1 (userId ?ord)) (amount ?ord)),
               processedOrders := insert (order_id n1) (processedOrders ?s1),
               pendingOrders := (pendingOrders ?s1)(order_id n1 := None) \<rparr>,
           200, Message ''Webhook processed'')"
    using h by (intro webhook_credit) (simp_all add: pristine_def)
  with h have w1: "webhook cfg ?s1 n1 = (?s2, 200, Message ''Webhook processed'')"
    by simp
  from h have w2: "webhook cfg ?s2 n2 = (?s2, 200, Message ''Already processed'')"
    by (simp add: webhook_def)
  show "snd (topup cfg s (Some uid) (Some 50000) uuid (Some tr))
        = (200, TopupCreated (''TOPUP-'' @ uuid) (token tr) (redirect_url tr))"
    using t by simp
  show "pendingOrders (fst (topup cfg s (Some uid) (Some 50000) uuid (Some tr))) (''TOPUP-'' @ uuid)
        = Some \<lparr> userId = uid, amount = 50000 \<rparr>"
    using t by simp
  show "balances (fst (topup cfg s (Some uid) (Some 50000) uuid (Some tr))) = balances s"
    using t by simp
  show "snd (webhook cfg (fst (topup cfg s (Some uid) (Some 50000) uuid (Some tr))) n1)
        = (200, Message ''Webhook processed'')"
    using t w1 by simp
  show "balances (fst (webhook cfg (fst (topup cfg s (Some uid) (Some 50000) uuid (Some tr))) n1))
        = (balances s)(uid \<mapsto> credited (balances s uid) 50000)"
    using t w1 by simp
  show "''TOPUP-'' @ uuid
        \<in> processedOrders (fst (webhook cfg (fst (topup cfg s (Some uid) (Some 50000) uuid (Some tr))) n1))"
    using t w1 by simp
  show "pendingOrders (fst (webhook cfg (fst (topup cfg s (Some uid) (Some 50000) uuid (Some tr))) n1))
        (''TOPUP-'' @ uuid) = None"
    using t w1 by simp
  show "webhook cfg (fst (webhook cfg (fst (topup cfg s (Some uid) (Some 50000) uuid (Some tr))) n1)) n2
        = (fst (webhook cfg (fst (topup cfg s (Some uid) (Some 50000) uuid (Some tr))) n1),
           200, Message ''Already processed'')"
    using t w1 w2 by simp
next
  assume "expectedSignature cfg n = signature_key n \<and> transaction_status n = ''settlement'' \<and>
    transactions fs (order_id n) = Some trx"
  then show "webhook_fs cfg fs n =
        (fs\<lparr> transactions := (transactions fs)(order_id n \<mapsto> trx\<lparr> tx_status := ''success'' \<rparr>) \<rparr>,
         200, Message ''Webhook processed'')"
    by (simp add: webhook_fs_def update_status_def expectedSignature_def)
qed

theorem round_trip_witness:
  "balances funded_account ''u'' = Some (Num 7) \<and>
   balances (fst (webhook test_config
                    (fst (topup test_config funded_account (Some ''u'') (Some 50000) ''1'' snap_ok))
                    (signed ''TOPUP-1'' ''settlement'')))
     = [''u'' \<mapsto> Num 50007] \<and>
   ''TOPUP-1'' \<in> processedOrders
      (fst (webhook test_config
              (fst (topup test_config funded_account (Some ''u'') (Some 50000) ''1'' snap_ok))
              (signed ''TOPUP-1'' ''settlement''))) \<and>
   webhook test_config
     (fst (webhook test_config
             (fst (topup test_config funded_account (Some ''u'') (Some 50000) ''1'' snap_ok))
             (signed ''TOPUP-1'' ''settlement'')))
     (signed ''TOPUP-1'' ''expire'')
   = (fst (webhook test_config
             (fst (topup test_config funded_account (Some ''u'') (Some 50000) ''1'' snap_ok))
             (signed ''TOPUP-1'' ''settlement'')),
      200, Message ''Already processed'') \<and>
   webhook_fs test_config funded_transaction (signed ''TOP-1'' ''settlement'')
   = (funded_transaction\<lparr> transactions :=
         [''TOP-1'' \<mapsto> \<lparr> tx_uid = ''u'', tx_amount = 50000, tx_status = ''success'' \<rparr>] \<rparr>,
      200, Message ''Webhook processed'')"
proof -
  have h: "''u'' \<noteq> [] \<and> \<not> proto_member ''u'' \<and> pristine funded_account \<and>
      safe (MIN_TOPUP test_config) \<and> MIN_TOPUP test_config \<le> 50000 \<and>
      exact_credit (balances funded_account ''u'') 50000 \<and>
      ''TOPUP-'' @ ''1'' \<notin> processedOrders funded_account \<and>
      signature_key (signed ''TOPUP-1'' ''settlement'')
        = expectedSignature test_config (signed ''TOPUP-1'' ''settlement'') \<and>
      order_id (signed ''TOPUP-1'' ''settlement'') = ''TOPUP-'' @ ''1'' \<and>
      transaction_status (signed ''TOPUP-1'' ''settlement'') = ''settlement'' \<and>
      signature_key (signed ''TOPUP-1'' ''expire'')
        = expectedSignature test_config (signed ''TOPUP-1'' ''expire'') \<and>
      order_id (signed ''TOPUP-1'' ''expire'') = ''TOPUP-'' @ ''1'' \<and>
      transaction_status (signed ''TOPUP-1'' ''expire'') = ''expire''"
    by (simp add: expectedSignature_def load_config_def init_store_def pristine_def
          proto_member_def builtin_names_def safe_def)
  have g: "expectedSignature test_config (signed ''TOP-1'' ''settlement'')
             = signature_key (signed ''TOP-1'' ''settlement'') \<and>
      transaction_status (signed ''TOP-1'' ''settlement'') = ''settlement'' \<and>
      transactions funded_transaction (order_id (signed ''TOP-1'' ''settlement''))
        = Some \<lparr> tx_uid = ''u'', tx_amount = 50000, tx_status = ''pending'' \<rparr>"
    by (simp add: expectedSignature_def load_config_def)
  have z: "balances funded_account ''u'' = Some (Num 7)" by simp
  note rt = round_trip [where cfg = test_config and s = funded_account and uid = "''u''"
      and uuid = "''1''" and tr = "\<lparr> token = ''t'', redirect_url = ''r'' \<rparr>"
      and ?n1.0 = "signed ''TOPUP-1'' ''settlement''" and ?n2.0 = "signed ''TOPUP-1'' ''expire''"
      and fs = funded_transaction and n = "signed ''TOP-1'' ''settlement''"
      and trx = "\<lparr> tx_uid = ''u'', tx_amount = 50000, tx_status = ''pending'' \<rparr>"]
  from rt h have A: "balances (fst (webhook test_config
                    (fst (topup test_config funded_account (Some ''u'') (Some 50000) ''1'' snap_ok))
                    (signed ''TOPUP-1'' ''settlement'')))
     = [''u'' \<mapsto> Num 50007]"
    by simp
  from rt h have B: "''TOPUP-1'' \<in> processedOrders
      (fst (webhook test_config
              (fst (topup test_config funded_account (Some ''u'') (Some 50000) ''1'' snap_ok))
              (signed ''TOPUP-1'' ''settlement'')))"
    by simp
  from rt h have C: "webhook test_config
     (fst (webhook test_config
             (fst (topup test_config funded_account (Some ''u'') (Some 50000) ''1'' snap_ok))
             (signed ''TOPUP-1'' ''settlement'')))
     (signed ''TOPUP-1'' ''expire'')
   = (fst (webhook test_config
             (fst (topup test_config funded_account (Some ''u'') (Some 50000) ''1'' snap_ok))
             (signed ''TOPUP-1'' ''settlement'')),
      200, Message ''Already processed'')"
    by simp
  from rt g have D: "webhook_fs test_config funded_transaction (signed ''TOP-1'' ''settlement'')
   = (funded_transaction\<lparr> transactions :=
         [''TOP-1'' \<mapsto> \<lparr> tx_uid = ''u'', tx_amount = 50000, tx_status = ''success'' \<rparr>] \<rparr>,
      200, Message ''Webhook processed'')"
    by simp
  from z A B C D show ?thesis by blast
qed

text \<open>As stated for every handler the claim fails on server.js: after the top-up of 50000
  and its settlement the user's balance is what it was, and the expire notification that
  follows replaces the status \<^verbatim>\<open>success\<close> by \<^verbatim>\<open>expired\<close>.\<close>

theorem serverjs_expire_after_settlement:
  "users (fst (webhook_fs test_config
                 (fst (topup_fs user_without_orders (Some ''u'') (Some 50000) ''1'' snap_ok))
                 (signed ''TOPUP-1'' ''settlement''))) ''u''
     = Some \<lparr> balance = Some 0 \<rparr> \<and>
   transactions
     (fst (webhook_fs test_config
             (fst (webhook_fs test_config
                     (fst (topup_fs user_without_orders (Some ''u'') (Some 50000) ''1'' snap_ok))
                     (signed ''TOPUP-1'' ''settlement'')))
             (signed ''TOPUP-1'' ''expire''))) ''TOPUP-1''
     = Some \<lparr> tx_uid = ''u'', tx_amount = 50000, tx_status = ''expired'' \<rparr>"
  by (simp add: webhook_fs_def topup_fs_def update_status_def load_config_def Let_def)

subsection \<open>Top-up requests\<close>

text \<open>C9. A top-up request with an amount below the minimum (\<^verbatim>\<open>MIN_TOPUP\<close> in the
  in-memory engine, the literal 10000 in server.js) is answered 400 with the state
  unchanged: the gateway has not been called and no order is stored.\<close>

theorem topup_below_minimum_rejected:
  "(a < MIN_TOPUP cfg \<longrightarrow>
      topup cfg s uid (Some a) uuid snap = (s, 400, Message ''Invalid request'')) \<and>
   (a < 10000 \<longrightarrow>
      topup_fs fs uid (Some a) uuid snap = (fs, 400, Message ''Invalid request''))"
  by (simp add: topup_def topup_fs_def)

theorem topup_below_minimum_rejected_witness:
  "(9999::int) < MIN_TOPUP test_config \<and>
   topup test_config init_store (Some ''u'') (Some 9999) ''1''
       (Some \<lparr> token = ''t'', redirect_url = ''r'' \<rparr>)
     = (init_store, 400, Message ''Invalid request'') \<and>
   topup_fs one_transaction (Some ''u'') (Some 9999) ''1''
       (Some \<lparr> token = ''t'', redirect_url = ''r'' \<rparr>)
     = (one_transaction, 400, Message ''Invalid request'')"
proof -
  have m: "(9999::int) < MIN_TOPUP test_config" by (simp add: load_config_def)
  have c: "(9999::int) < 10000" by simp
  from topup_below_minimum_rejected [where a = 9999 and cfg = test_config and s = init_store
      and fs = one_transaction and uid = "Some ''u''" and uuid = "''1''"
      and snap = "Some \<lparr> token = ''t'', redirect_url = ''r'' \<rparr>"] m c
  show ?thesis by blast
qed

subsection \<open>Withdrawals\<close>

text \<open>C3. Two withdrawals that the in-memory engine accepts although the user holds
  nothing. For the user id \<^verbatim>\<open>constructor\<close> the balance read is the inherited function,
  which no amount exceeds: a withdrawal of 5 is answered 200, stores \<^verbatim>\<open>NaN\<close> as the
  balance and writes the day's total onto that function. For a fresh user a withdrawal
  of -5 passes every guard and stores \<^verbatim>\<open>NaN\<close> as well.\<close>

theorem withdraw_beyond_balance_accepted:
  "read_balance init_store ''constructor'' = Some (Builtin ''constructor'') \<and>
   withdraw test_config init_store (Some ''constructor'') (Some 5) ''2026-01-01''
   = (init_store\<lparr> balances := [''constructor'' \<mapsto> NaN],
                   builtinProps := (builtinProps init_store)(''constructor'' := [''2026-01-01'' \<mapsto> 5]) \<rparr>,
      200, WithdrawDone ''Withdraw success (simulation)'' NaN) \<and>
   withdraw test_config init_store (Some ''u'') (Some (- 5)) ''2026-01-01''
   = (init_store\<lparr> balances := [''u'' \<mapsto> NaN],
                   withdrawHistory := [''u'' \<mapsto> [''2026-01-01'' \<mapsto> - 5]] \<rparr>,
      200, WithdrawDone ''Withdraw success (simulation)'' NaN)"
  by (simp add: engine_defs)




text \<open>C6. The in-memory engine accepts a withdrawal with a negative amount: the request
  of -5000 by a user holding 10000 is answered 200, raises the balance to 15000 and
  lowers the day's total to -5000.\<close>

theorem negative_withdraw_accepted:
  "withdraw test_config (init_store\<lparr> balances := [''u'' \<mapsto> Num 10000] \<rparr>)
       (Some ''u'') (Some (- 5000)) ''2026-01-01''
     = (init_store\<lparr> balances := [''u'' \<mapsto> Num 15000],
                     withdrawHistory := [''u'' \<mapsto> [''2026-01-01'' \<mapsto> - 5000]] \<rparr>,
        200, WithdrawDone ''Withdraw success (simulation)'' (Num 15000))"
  by (simp add: engine_defs)

subsection \<open>Balance query\<close>

text \<open>C10. Two balance queries that do not return the balance. For the user id
  \<^verbatim>\<open>constructor\<close>, which has no account, the answer carries the inherited function
  instead of 0 (the JSON encoding then drops the field). For a user whose stored balance
  is \<^verbatim>\<open>NaN\<close>, as a withdrawal of -5 from a fresh account leaves it, the answer is 0.\<close>

theorem balance_of_inherited_key:
  "balances init_store ''constructor'' = None \<and>
   balance_query init_store ''constructor''
   = (init_store, 200, BalanceRaw ''constructor'' (Builtin ''constructor'')) \<and>
   balances (fst (withdraw test_config init_store (Some ''u'') (Some (- 5)) ''2026-01-01'')) ''u''
   = Some NaN \<and>
   snd (balance_query (fst (withdraw test_config init_store (Some ''u'') (Some (- 5)) ''2026-01-01''))
          ''u'')
   = (200, BalanceOf ''u'' 0)"
  by (simp add: engine_defs)

end
